theory Spec2Isabelle
  imports Complex_Main
begin

section \<open>Data model (\<open>src/src/hooks/useCart.ts\<close>, the API client part)\<close>

text \<open>
  A TypeScript \<open>number\<close> is modelled as an exact \<^typ>\<open>real\<close>: rounding, overflow to
  infinity and NaN of the IEEE doubles are not represented. The one place where the
  code can leave the finite numbers by itself, a division whose divisor is zero, is
  modelled by \<open>js_div\<close>, which yields \<open>None\<close> there.

  The interface \<open>Car\<close> (lines 140 to 162). The source field \<open>_id\<close> is \<open>Car_id\<close> and
  \<open>power\<close> is \<open>enginePower\<close> here, since neither name is available in HOL.
\<close>

record Car =
  Car_id :: string
  brand :: string
  model :: string
  year :: real
  price :: real
  mileage :: real
  fuelType :: string
  transmission :: string
  bodyType :: string
  engineVolume :: real
  enginePower :: real
  color :: string
  vin :: string
  status :: string
  images :: "string list"
  features :: "string list"
  description :: string
  isNew :: bool
  isHit :: bool
  createdAt :: string
  updatedAt :: string

text \<open>
  The interface \<open>CartItem\<close> (lines 164 to 178); an optional field is an \<open>option\<close>.
  The source fields \<open>_id\<close>, \<open>notes\<close> and \<open>financing.type\<close> are \<open>CartItem_id\<close>,
  \<open>itemNotes\<close> and \<open>fin_type\<close> here.
\<close>

datatype FinancingType = cash | credit | leasing

record Financing =
  fin_type :: FinancingType
  downPayment :: "real option"
  loanTerm :: "real option"
  monthlyPayment :: "real option"

record CartItem =
  CartItem_id :: string
  userId :: string
  carId :: string
  car :: "Car option"
  quantity :: real
  addedAt :: string
  itemNotes :: "string option"
  financing :: "Financing option"

text \<open>
  \<open>Partial<CartItem>\<close>: every field may be absent (\<open>None\<close>). A field that is present
  holds a value of the field's type. An \<open>options\<close> argument that is left out altogether
  behaves as the partial item with every field absent, \<open>no_options\<close>.
\<close>

record Partial_CartItem =
  p_id :: "string option"
  p_userId :: "string option"
  p_carId :: "string option"
  p_car :: "Car option"
  p_quantity :: "real option"
  p_addedAt :: "string option"
  p_notes :: "string option"
  p_financing :: "Financing option"

definition no_options :: Partial_CartItem where
  "no_options = \<lparr> p_id = None, p_userId = None, p_carId = None, p_car = None,
     p_quantity = None, p_addedAt = None, p_notes = None, p_financing = None \<rparr>"

text \<open>
  The object spread \<open>{ ...item, ...options }\<close>: a field present on the right wins,
  any other field keeps the value on the left.
\<close>

definition spread :: "CartItem \<Rightarrow> Partial_CartItem \<Rightarrow> CartItem" where
  "spread item options =
     \<lparr> CartItem_id = (case p_id options of Some v \<Rightarrow> v | None \<Rightarrow> CartItem_id item),
       userId = (case p_userId options of Some v \<Rightarrow> v | None \<Rightarrow> userId item),
       carId = (case p_carId options of Some v \<Rightarrow> v | None \<Rightarrow> carId item),
       car = (case p_car options of Some v \<Rightarrow> Some v | None \<Rightarrow> car item),
       quantity = (case p_quantity options of Some v \<Rightarrow> v | None \<Rightarrow> quantity item),
       addedAt = (case p_addedAt options of Some v \<Rightarrow> v | None \<Rightarrow> addedAt item),
       itemNotes = (case p_notes options of Some v \<Rightarrow> Some v | None \<Rightarrow> itemNotes item),
       financing = (case p_financing options of Some v \<Rightarrow> Some v | None \<Rightarrow> financing item) \<rparr>"

section \<open>The Local Cart Store: the key \<open>cart\<close> of \<open>localStorage\<close>\<close>

text \<open>
  The text stored under the key is represented by what the code can tell about it:
  the empty string (falsy in \<open>!items\<close>), a text that \<open>JSON.parse\<close> rejects, or the
  text that \<open>JSON.stringify\<close> writes for a sequence of line items and \<open>JSON.parse\<close>
  reads back as that sequence. Texts that parse to anything but a sequence of line
  items are outside the model. The store is \<open>None\<close> when no value exists under the key
  (\<open>getItem\<close> returns \<open>null\<close>).
\<close>

datatype cart_text = EmptyText | MalformedText | ItemsText "CartItem list"

type_synonym local_storage = "cart_text option"

datatype error =
    SyntaxError     \<comment> \<open>thrown by \<open>JSON.parse\<close>\<close>
  | DuplicateItem   \<comment> \<open>the \<open>Error\<close> thrown at line 299\<close>
  | ItemNotFound    \<comment> \<open>the \<open>Error\<close> thrown at line 330\<close>

fun JSON_parse :: "cart_text \<Rightarrow> error + CartItem list" where
  "JSON_parse EmptyText = Inl SyntaxError"
| "JSON_parse MalformedText = Inl SyntaxError"
| "JSON_parse (ItemsText xs) = Inr xs"

definition JSON_stringify :: "CartItem list \<Rightarrow> cart_text" where
  "JSON_stringify xs = ItemsText xs"

text \<open>The initial read of \<open>getCartItems\<close>, lines 271 to 274.\<close>

definition load :: "local_storage \<Rightarrow> error + CartItem list" where
  "load st =
     (case st of
        None \<Rightarrow> Inr []
      | Some items \<Rightarrow> if items = EmptyText then Inr [] else JSON_parse items)"

section \<open>The Cart Synchronization Layer: the cart methods of \<open>ApiClient\<close>\<close>

text \<open>
  The catalog service is a parameter of every operation: \<open>fetch i\<close> is \<open>Some\<close> of the
  data of the response of \<open>getCarById(i)\<close>, and \<open>None\<close> when that request throws. One
  operation sees one answer for each identifier; two operations may see different
  catalogs. Every operation runs from its start to its end without another one in
  between, and returns its result together with the store it leaves.
\<close>

type_synonym catalog = "string \<Rightarrow> Car option"

text \<open>The callback of \<open>cartItems.map\<close>, lines 278 to 286.\<close>

definition enrich :: "catalog \<Rightarrow> CartItem \<Rightarrow> CartItem" where
  "enrich fetch item =
     (case fetch (carId item) of
        Some data \<Rightarrow> item\<lparr>car := Some data\<rparr>
      | None \<Rightarrow> item)"

definition getCartItems :: "catalog \<Rightarrow> local_storage \<Rightarrow> error + CartItem list" where
  "getCartItems fetch st =
     (case load st of
        Inl e \<Rightarrow> Inl e
      | Inr cartItems \<Rightarrow> Inr (map (enrich fetch) cartItems))"

text \<open>
  The two readings of the clock in \<open>addToCart\<close>: \<open>Date.now().toString()\<close> and
  \<open>new Date().toISOString()\<close>.
\<close>

record clock =
  now_text :: string
  now_iso :: string

text \<open>The fields that the object literal of lines 302 to 309 sets before \<open>...options\<close>.\<close>

definition generated :: "clock \<Rightarrow> string \<Rightarrow> CartItem" where
  "generated clk cid =
     \<lparr> CartItem_id = now_text clk, userId = ''guest'', carId = cid, car = None,
       quantity = 1, addedAt = now_iso clk, itemNotes = None, financing = None \<rparr>"

text \<open>
  \<open>addToCart\<close> (lines 292 to 323). \<open>find\<close> is \<open>Array.prototype.find\<close>; the item it
  returns is an object, so \<open>if (existingItem)\<close> is taken exactly when one is found.
\<close>

definition addToCart ::
  "clock \<Rightarrow> catalog \<Rightarrow> string \<Rightarrow> Partial_CartItem \<Rightarrow> local_storage
     \<Rightarrow> (error + CartItem) \<times> local_storage" where
  "addToCart clk fetch cid options st =
     (case getCartItems fetch st of
        Inl e \<Rightarrow> (Inl e, st)
      | Inr cartItems \<Rightarrow>
          (case find (\<lambda>item. carId item = cid) cartItems of
             Some existingItem \<Rightarrow> (Inl DuplicateItem, st)
           | None \<Rightarrow>
               (let newItem = spread (generated clk cid) options;
                    updatedCart = cartItems @ [newItem];
                    st' = Some (JSON_stringify updatedCart)
                in (Inr (case fetch cid of
                           Some data \<Rightarrow> newItem\<lparr>car := Some data\<rparr>
                         | None \<Rightarrow> newItem), st'))))"

text \<open>\<open>Array.prototype.findIndex\<close>: the first index whose element passes, or \<open>-1\<close>.\<close>

fun findIndex :: "('a \<Rightarrow> bool) \<Rightarrow> 'a list \<Rightarrow> int" where
  "findIndex P [] = -1"
| "findIndex P (x # xs) =
     (if P x then 0 else (let r = findIndex P xs in if r = -1 then -1 else r + 1))"

definition updateCartItem ::
  "catalog \<Rightarrow> string \<Rightarrow> Partial_CartItem \<Rightarrow> local_storage
     \<Rightarrow> (error + CartItem) \<times> local_storage" where
  "updateCartItem fetch itemId updates st =
     (case getCartItems fetch st of
        Inl e \<Rightarrow> (Inl e, st)
      | Inr cartItems \<Rightarrow>
          (let itemIndex = findIndex (\<lambda>item. CartItem_id item = itemId) cartItems
           in if itemIndex = -1 then (Inl ItemNotFound, st)
              else (let updatedItem = spread (cartItems ! nat itemIndex) updates;
                        cartItems' = cartItems[nat itemIndex := updatedItem]
                    in (Inr updatedItem, Some (JSON_stringify cartItems')))))"

definition removeFromCart ::
  "catalog \<Rightarrow> string \<Rightarrow> local_storage \<Rightarrow> (error + unit) \<times> local_storage" where
  "removeFromCart fetch itemId st =
     (case getCartItems fetch st of
        Inl e \<Rightarrow> (Inl e, st)
      | Inr cartItems \<Rightarrow>
          (let filteredItems = filter (\<lambda>item. CartItem_id item \<noteq> itemId) cartItems
           in (Inr (), Some (JSON_stringify filteredItems))))"

definition clearCart :: "local_storage \<Rightarrow> (error + unit) \<times> local_storage" where
  "clearCart st = (Inr (), None)"

text \<open>
  \<open>item.car?.price || 0\<close>: \<open>0\<close> when the item has no car and when the price is falsy.
\<close>

definition price_or_0 :: "CartItem \<Rightarrow> real" where
  "price_or_0 item =
     (case car item of
        None \<Rightarrow> 0
      | Some c \<Rightarrow> if price c = 0 then 0 else price c)"

definition getCartTotal :: "catalog \<Rightarrow> local_storage \<Rightarrow> error + real" where
  "getCartTotal fetch st =
     (case getCartItems fetch st of
        Inl e \<Rightarrow> Inl e
      | Inr cartItems \<Rightarrow>
          Inr (foldl (\<lambda>total item. total + price_or_0 item * quantity item) 0 cartItems))"

text \<open>
  The persisted sequence of a store: the line items its text stands for, and no line
  item when there is no text or the text is not that of a sequence.
\<close>

fun persisted :: "local_storage \<Rightarrow> CartItem list" where
  "persisted (Some (ItemsText xs)) = xs"
| "persisted st = []"

text \<open>
  Sequences of operations on the store. An operation that throws leaves the store as
  it found it, so the store after an operation is the second component of its result
  in every case.
\<close>

datatype cart_op =
    AddItem clock catalog string Partial_CartItem
  | UpdateItem catalog string Partial_CartItem
  | RemoveItem catalog string
  | Clear

fun apply_op :: "cart_op \<Rightarrow> local_storage \<Rightarrow> local_storage" where
  "apply_op (AddItem clk fetch cid options) st = snd (addToCart clk fetch cid options st)"
| "apply_op (UpdateItem fetch itemId updates) st = snd (updateCartItem fetch itemId updates st)"
| "apply_op (RemoveItem fetch itemId) st = snd (removeFromCart fetch itemId st)"
| "apply_op Clear st = snd (clearCart st)"

fun run :: "cart_op list \<Rightarrow> local_storage \<Rightarrow> local_storage" where
  "run [] st = st"
| "run (op # ops) st = run ops (apply_op op st)"

text \<open>
  An operation keeps product identifiers when its overrides name no product other
  than the one being added, and its patch names no product at all.
\<close>

fun keeps_carId :: "cart_op \<Rightarrow> bool" where
  "keeps_carId (AddItem clk fetch cid options) =
     (case p_carId options of None \<Rightarrow> True | Some c \<Rightarrow> c = cid)"
| "keeps_carId (UpdateItem fetch itemId updates) = (p_carId updates = None)"
| "keeps_carId (RemoveItem fetch itemId) = True"
| "keeps_carId Clear = True"

text \<open>A line item without its product snapshot.\<close>

definition forget_car :: "CartItem \<Rightarrow> CartItem" where
  "forget_car item = item\<lparr>car := None\<rparr>"

text \<open>
  The total as the specification words it: the resolved price times the quantity for
  every line item whose product the catalog resolves, and nothing for the others.
\<close>

definition spec_getTotal :: "catalog \<Rightarrow> CartItem list \<Rightarrow> real" where
  "spec_getTotal fetch items =
     (\<Sum>item\<leftarrow>items. case fetch (carId item) of
                         Some data \<Rightarrow> price data * quantity item
                       | None \<Rightarrow> 0)"

text \<open>
  The persisted line items as claim C10 words them: each carries, in its \<open>car\<close>
  field, the snapshot that the call resolved for it, and no snapshot when the fetch
  for it failed.
\<close>

definition spec_carries_resolved :: "catalog \<Rightarrow> CartItem list \<Rightarrow> bool" where
  "spec_carries_resolved fetch items =
     list_all (\<lambda>item. car item = fetch (carId item)) items"

section \<open>The financing calculator\<close>




section \<open>Promo codes of the cart page (\<open>src/unnamed/part_001\<close>)\<close>

text \<open>
  The table \<open>validCodes\<close> of \<open>handleApplyPromoCode\<close> (lines 112 to 116). The code
  looked up is the state \<open>promoCode\<close>, which only ever holds upper-cased text (line
  461), so a lookup never meets a member that the table object inherits: it finds one
  of the three entries or nothing.
\<close>

definition validCodes :: "(string \<times> real) list" where
  "validCodes = [(''SAVE10'', 0.1), (''FIRST15'', 0.15), (''PREMIUM20'', 0.2)]"

datatype promo_toast = PromoApplied | PromoInvalid

text \<open>
  \<open>handleApplyPromoCode\<close> (lines 110 to 132), from the states \<open>promoCode\<close> and
  \<open>promoDiscount\<close> to the new \<open>promoDiscount\<close> and the notification shown.
  \<open>if (discount)\<close> takes a number that is not zero.
\<close>

definition handleApplyPromoCode :: "string \<Rightarrow> real \<Rightarrow> real \<times> promo_toast" where
  "handleApplyPromoCode promoCode promoDiscount =
     (case map_of validCodes promoCode of
        Some discount \<Rightarrow>
          if discount \<noteq> 0 then (discount, PromoApplied) else (promoDiscount, PromoInvalid)
      | None \<Rightarrow> (promoDiscount, PromoInvalid))"

text \<open>\<open>calculateSelectedTotal\<close> (lines 50 to 54); the selection is a set of item identifiers.\<close>

definition calculateSelectedTotal :: "CartItem list \<Rightarrow> string set \<Rightarrow> real" where
  "calculateSelectedTotal cartItems selectedItems =
     foldl (\<lambda>sum item. sum + price_or_0 item * quantity item) 0
       (filter (\<lambda>item. CartItem_id item \<in> selectedItems) cartItems)"

text \<open>\<open>discountAmount\<close> and \<open>finalTotal\<close> (lines 187 and 188).\<close>

definition discountAmount :: "real \<Rightarrow> real \<Rightarrow> real" where
  "discountAmount selectedTotal promoDiscount = selectedTotal * promoDiscount"

definition finalTotal :: "real \<Rightarrow> real \<Rightarrow> real" where
  "finalTotal selectedTotal promoDiscount =
     selectedTotal - discountAmount selectedTotal promoDiscount"

section \<open>Sample data\<close>

definition car_A :: Car where
  "car_A = \<lparr> Car_id = ''A'', brand = ''Lada'', model = ''Vesta'', year = 2022,
     price = 500000, mileage = 0, fuelType = ''petrol'', transmission = ''manual'',
     bodyType = ''sedan'', engineVolume = 1.6, enginePower = 106, color = ''white'',
     vin = ''XTA00000000000001'', status = ''available'', images = [], features = [],
     description = [], isNew = True, isHit = False,
     createdAt = ''2024-01-01T00:00:00.000Z'', updatedAt = ''2024-01-01T00:00:00.000Z'' \<rparr>"

definition catalog_up :: catalog where
  "catalog_up i = (if i = ''A'' then Some car_A else None)"

definition catalog_down :: catalog where
  "catalog_down i = None"

definition clock_1 :: clock where
  "clock_1 = \<lparr> now_text = ''1700000000000'', now_iso = ''2023-11-14T22:13:20.000Z'' \<rparr>"

definition clock_2 :: clock where
  "clock_2 = \<lparr> now_text = ''1700000060000'', now_iso = ''2023-11-14T22:14:20.000Z'' \<rparr>"

text \<open>The line item that \<open>addToCart\<close> persists for product \<open>A\<close> at \<open>clock_1\<close>.\<close>

definition item_A :: CartItem where
  "item_A = \<lparr> CartItem_id = ''1700000000000'', userId = ''guest'', carId = ''A'',
     car = None, quantity = 1, addedAt = ''2023-11-14T22:13:20.000Z'',
     itemNotes = None, financing = None \<rparr>"

section \<open>Enrichment and the object spread, field by field\<close>

lemma load_items [simp]: "load (Some (ItemsText xs)) = Inr xs"
  by (simp add: load_def)

lemma carId_enrich [simp]: "carId (enrich fetch item) = carId item"
  by (simp add: enrich_def split: option.split)

lemma quantity_enrich [simp]: "quantity (enrich fetch item) = quantity item"
  by (simp add: enrich_def split: option.split)

lemma id_enrich [simp]: "CartItem_id (enrich fetch item) = CartItem_id item"
  by (simp add: enrich_def split: option.split)

lemma car_enrich:
  "car (enrich fetch item) =
     (case fetch (carId item) of Some data \<Rightarrow> Some data | None \<Rightarrow> car item)"
  by (simp add: enrich_def split: option.split)

lemma enrich_idem [simp]: "enrich fetch (enrich fetch item) = enrich fetch item"
  by (simp add: enrich_def split: option.split)

lemma forget_car_enrich [simp]: "forget_car (enrich fetch item) = forget_car item"
  by (simp add: enrich_def forget_car_def split: option.split)

lemma spread_no_options [simp]: "spread item no_options = item"
  by (simp add: spread_def no_options_def)

lemma find_carId_None:
  "cid \<notin> set (map carId xs) \<Longrightarrow>
     find (\<lambda>item. carId item = cid) (map (enrich fetch) xs) = None"
  by (induction xs) auto

lemma find_carId_Some:
  "cid \<in> set (map carId xs) \<Longrightarrow>
     \<exists>y. find (\<lambda>item. carId item = cid) (map (enrich fetch) xs) = Some y"
  by (induction xs) auto

lemma filter_carId_absent:
  "cid \<notin> set (map carId xs) \<Longrightarrow>
     filter (\<lambda>item. carId item = cid) (map (enrich fetch) xs) = []"
  by (induction xs) auto

section \<open>Reading the store\<close>

text \<open>
  C2, as the code has it. The initial read returns the stored sequence; it returns
  the empty sequence when no value exists under the key and when the value is the
  empty string; when the stored value fails to deserialize it fails with the
  \<open>SyntaxError\<close> of \<open>JSON.parse\<close>, and that is the only way it fails.
\<close>

theorem load_cases:
  "load None = Inr [] \<and> load (Some EmptyText) = Inr [] \<and>
   load (Some (ItemsText xs)) = Inr xs \<and>
   load (Some MalformedText) = Inl SyntaxError \<and>
   ((\<exists>e. load st = Inl e) = (st = Some MalformedText))"
proof -
  have "(\<exists>e. load st = Inl e) = (st = Some MalformedText)"
  proof (cases st)
    case None
    then show ?thesis by (simp add: load_def)
  next
    case (Some t)
    then show ?thesis by (cases t) (simp_all add: load_def)
  qed
  then show ?thesis by (simp add: load_def)
qed

text \<open>
  C2 as stated fails: on a stored value that does not deserialize the read does not
  return the empty sequence, and \<open>getCartItems\<close> fails with it.
\<close>

theorem load_malformed_counterexample:
  "load (Some MalformedText) \<noteq> Inr [] \<and>
   getCartItems catalog_up (Some MalformedText) = Inl SyntaxError"
  by (simp add: load_def getCartItems_def)

section \<open>Adding a line item\<close>

lemma snd_addToCart_fresh:
  assumes "load st = Inr xs" and "cid \<notin> set (map carId xs)"
  shows "snd (addToCart clk fetch cid options st) =
           Some (ItemsText (map (enrich fetch) xs @ [spread (generated clk cid) options]))"
  using assms(1) find_carId_None [OF assms(2), of fetch]
  by (simp add: addToCart_def getCartItems_def JSON_stringify_def Let_def)

lemma fst_addToCart_fresh:
  assumes "load st = Inr xs" and "cid \<notin> set (map carId xs)"
  shows "\<exists>newItem. fst (addToCart clk fetch cid options st) = Inr newItem"
  using assms(1) find_carId_None [OF assms(2), of fetch]
  by (simp add: addToCart_def getCartItems_def Let_def)

lemma snd_addToCart_present:
  assumes "load st = Inr xs" and "cid \<in> set (map carId xs)"
  shows "snd (addToCart clk fetch cid options st) = st"
proof -
  obtain y where "find (\<lambda>item. carId item = cid) (map (enrich fetch) xs) = Some y"
    using find_carId_Some [OF assms(2)] by blast
  then show ?thesis
    using assms(1) by (simp add: addToCart_def getCartItems_def)
qed

text \<open>
  C3. When the persisted sequence already holds a line item whose \<open>carId\<close> is the
  product being added, \<open>addToCart\<close> fails with \<open>DuplicateItem\<close>, whatever the overrides,
  the clock and the catalog are, and the store it leaves is the store it found.
\<close>

theorem addToCart_duplicate:
  assumes "load st = Inr xs" and "cid \<in> set (map carId xs)"
  shows "addToCart clk fetch cid options st = (Inl DuplicateItem, st)"
proof -
  obtain y where "find (\<lambda>item. carId item = cid) (map (enrich fetch) xs) = Some y"
    using find_carId_Some [OF assms(2)] by blast
  then show ?thesis
    using assms(1) by (simp add: addToCart_def getCartItems_def)
qed

theorem addToCart_duplicate_witness:
  "load (Some (ItemsText [item_A])) = Inr [item_A] \<and> ''A'' \<in> set (map carId [item_A]) \<and>
   addToCart clock_2 catalog_up ''A'' (no_options\<lparr>p_quantity := Some 3\<rparr>)
       (Some (ItemsText [item_A]))
     = (Inl DuplicateItem, Some (ItemsText [item_A]))"
  using addToCart_duplicate
    [of "Some (ItemsText [item_A])" "[item_A]" "''A''" clock_2 catalog_up
        "no_options\<lparr>p_quantity := Some 3\<rparr>"]
  by (simp add: item_A_def)

text \<open>
  C5. When the store is readable and no line item of it references product \<open>cid\<close>,
  \<open>addToCart\<close> of \<open>cid\<close> without overrides succeeds, and a \<open>getCartItems\<close> that follows
  (under any catalog) returns a collection in which exactly one line item has that
  \<open>carId\<close>; the quantity of that line item is 1.
\<close>

theorem addToCart_then_getCartItems:
  assumes "load st = Inr xs" and "cid \<notin> set (map carId xs)"
  shows "\<exists>newItem st' items y.
           addToCart clk fetch cid no_options st = (Inr newItem, st') \<and>
           getCartItems fetch' st' = Inr items \<and>
           filter (\<lambda>item. carId item = cid) items = [y] \<and> quantity y = 1"
proof -
  let ?n = "generated clk cid"
  let ?st' = "Some (ItemsText (map (enrich fetch) xs @ [?n]))"
  obtain newItem where r: "fst (addToCart clk fetch cid no_options st) = Inr newItem"
    using fst_addToCart_fresh [OF assms] by blast
  have s: "snd (addToCart clk fetch cid no_options st) = ?st'"
    using snd_addToCart_fresh [OF assms, of clk fetch no_options] by simp
  have a: "addToCart clk fetch cid no_options st = (Inr newItem, ?st')"
    using r s by (simp add: prod_eq_iff)
  have g: "getCartItems fetch' ?st' =
             Inr (map (enrich fetch') (map (enrich fetch) xs) @ [enrich fetch' ?n])"
    by (simp add: getCartItems_def)
  have "cid \<notin> set (map carId (map (enrich fetch) xs))"
    using assms(2) by (simp add: comp_def)
  then have "filter (\<lambda>item. carId item = cid)
               (map (enrich fetch') (map (enrich fetch) xs)) = []"
    by (rule filter_carId_absent)
  then have f: "filter (\<lambda>item. carId item = cid)
                  (map (enrich fetch') (map (enrich fetch) xs) @ [enrich fetch' ?n])
                = [enrich fetch' ?n]"
    by (simp add: generated_def)
  have q: "quantity (enrich fetch' ?n) = 1"
    by (simp add: generated_def)
  show ?thesis
    using a g f q by blast
qed

theorem addToCart_then_getCartItems_witness:
  "load (Some (ItemsText [item_A])) = Inr [item_A] \<and> ''B'' \<notin> set (map carId [item_A]) \<and>
   (\<exists>newItem st' items y.
      addToCart clock_2 catalog_up ''B'' no_options (Some (ItemsText [item_A]))
        = (Inr newItem, st') \<and>
      getCartItems catalog_down st' = Inr items \<and>
      filter (\<lambda>item. carId item = ''B'') items = [y] \<and> quantity y = 1)"
  using addToCart_then_getCartItems
    [of "Some (ItemsText [item_A])" "[item_A]" "''B''" clock_2 catalog_up catalog_down]
  by (simp add: item_A_def)

text \<open>
  C9. When \<open>addToCart\<close> gets past its duplicate check, which looks at \<open>cid\<close> only, the
  line item it appends to the persisted sequence takes every field that the overrides
  hold from the overrides, the generated identifier, the user, the added timestamp,
  the quantity and the product identifier included, and the generated value only
  where the overrides hold none.
\<close>

theorem addToCart_overrides:
  assumes "load st = Inr xs" and "cid \<notin> set (map carId xs)"
  shows "let st' = snd (addToCart clk fetch cid options st); n = last (persisted st')
         in persisted st' = map (enrich fetch) xs @ [n] \<and>
            CartItem_id n = (case p_id options of Some v \<Rightarrow> v | None \<Rightarrow> now_text clk) \<and>
            userId n = (case p_userId options of Some v \<Rightarrow> v | None \<Rightarrow> ''guest'') \<and>
            carId n = (case p_carId options of Some v \<Rightarrow> v | None \<Rightarrow> cid) \<and>
            quantity n = (case p_quantity options of Some v \<Rightarrow> v | None \<Rightarrow> 1) \<and>
            addedAt n = (case p_addedAt options of Some v \<Rightarrow> v | None \<Rightarrow> now_iso clk) \<and>
            car n = p_car options \<and> itemNotes n = p_notes options \<and>
            financing n = p_financing options"
  using snd_addToCart_fresh [OF assms, of clk fetch options]
  by (simp add: Let_def spread_def generated_def split: option.split)

text \<open>
  The two calls that C9 names: \<open>{quantity: 0}\<close> persists a quantity of 0, and
  \<open>{carId: 'A'}\<close> on adding \<open>B\<close> to a cart that holds \<open>A\<close> persists a second line item
  that references \<open>A\<close>.
\<close>

theorem addToCart_overrides_witness:
  "load (Some (ItemsText [item_A])) = Inr [item_A] \<and> ''B'' \<notin> set (map carId [item_A]) \<and>
   quantity (last (persisted (snd (addToCart clock_2 catalog_up ''B''
      (no_options\<lparr>p_quantity := Some 0\<rparr>) (Some (ItemsText [item_A])))))) = 0 \<and>
   map carId (persisted (snd (addToCart clock_2 catalog_up ''B''
      (no_options\<lparr>p_carId := Some ''A''\<rparr>) (Some (ItemsText [item_A]))))) = [''A'', ''A'']"
  using addToCart_overrides
          [of "Some (ItemsText [item_A])" "[item_A]" "''B''" clock_2 catalog_up
              "no_options\<lparr>p_quantity := Some 0\<rparr>"]
        addToCart_overrides
          [of "Some (ItemsText [item_A])" "[item_A]" "''B''" clock_2 catalog_up
              "no_options\<lparr>p_carId := Some ''A''\<rparr>"]
  by (simp add: item_A_def no_options_def Let_def addToCart_def getCartItems_def
        JSON_stringify_def spread_def generated_def enrich_def catalog_up_def)

section \<open>Updating and removing\<close>

lemma load_persisted: "load st = Inr xs \<Longrightarrow> persisted st = xs"
  by (cases st rule: persisted.cases) (auto simp: load_def)

lemma load_fail_keeps:
  "load st = Inl e \<Longrightarrow>
     snd (addToCart clk fetch cid options st) = st \<and>
     snd (updateCartItem fetch itemId updates st) = st \<and>
     snd (removeFromCart fetch itemId st) = st"
  by (simp add: addToCart_def updateCartItem_def removeFromCart_def getCartItems_def)

lemma findIndex_range:
  "findIndex P xs \<noteq> -1 \<Longrightarrow>
     0 \<le> findIndex P xs \<and> nat (findIndex P xs) < length xs \<and> P (xs ! nat (findIndex P xs))"
proof (induction xs)
  case Nil
  then show ?case by simp
next
  case (Cons x xs)
  show ?case
  proof (cases "P x")
    case True
    then show ?thesis by simp
  next
    case False
    with Cons.prems have ne: "findIndex P xs \<noteq> -1"
      by (simp add: Let_def split: if_splits)
    from Cons.IH [OF ne] False ne show ?thesis
      by (simp add: Let_def nat_add_distrib)
  qed
qed

lemma carId_spread_keep:
  "p_carId updates = None \<Longrightarrow> carId (spread item updates) = carId item"
  by (simp add: spread_def)

lemma snd_updateCartItem:
  assumes "load st = Inr xs"
  shows "snd (updateCartItem fetch itemId updates st) =
           (let i = findIndex (\<lambda>item. CartItem_id item = itemId) xs
            in if i = -1 then st
               else Some (ItemsText ((map (enrich fetch) xs)
                      [nat i := spread (enrich fetch (xs ! nat i)) updates])))"
proof -
  have eq: "findIndex (\<lambda>item. CartItem_id item = itemId) (map (enrich fetch) xs)
          = findIndex (\<lambda>item. CartItem_id item = itemId) xs"
    by (induction xs) (simp_all add: Let_def)
  show ?thesis
  proof (cases "findIndex (\<lambda>item. CartItem_id item = itemId) xs = -1")
    case True
    then show ?thesis
      using assms eq by (simp add: updateCartItem_def getCartItems_def Let_def)
  next
    case False
    from findIndex_range [OF False]
    have "nat (findIndex (\<lambda>item. CartItem_id item = itemId) xs) < length xs"
      by simp
    then show ?thesis
      using assms eq False
      by (simp add: updateCartItem_def getCartItems_def Let_def JSON_stringify_def)
  qed
qed

lemma filter_id_enrich:
  "filter (\<lambda>item. CartItem_id item \<noteq> itemId) (map (enrich fetch) xs) =
     map (enrich fetch) (filter (\<lambda>item. CartItem_id item \<noteq> itemId) xs)"
  by (induction xs) simp_all

lemma snd_removeFromCart:
  assumes "load st = Inr xs"
  shows "snd (removeFromCart fetch itemId st) =
           Some (ItemsText
             (map (enrich fetch) (filter (\<lambda>item. CartItem_id item \<noteq> itemId) xs)))"
  using assms
  by (simp add: removeFromCart_def getCartItems_def Let_def JSON_stringify_def
        filter_id_enrich)

lemma removeFromCart_twice:
  assumes "load st = Inr xs"
  shows "snd (removeFromCart fetch2 itemId (snd (removeFromCart fetch1 itemId st))) =
           Some (ItemsText (map (enrich fetch2) (map (enrich fetch1)
                   (filter (\<lambda>item. CartItem_id item \<noteq> itemId) xs))))"
proof -
  let ?ys = "map (enrich fetch1) (filter (\<lambda>item. CartItem_id item \<noteq> itemId) xs)"
  have 1: "snd (removeFromCart fetch1 itemId st) = Some (ItemsText ?ys)"
    using snd_removeFromCart [OF assms] .
  have 2: "load (Some (ItemsText ?ys)) = Inr ?ys" by simp
  have "filter (\<lambda>item. CartItem_id item \<noteq> itemId) ?ys = ?ys"
    by (simp only: filter_id_enrich filter_filter) simp
  then show ?thesis
    using snd_removeFromCart [OF 2, of fetch2 itemId] 1 by simp
qed

text \<open>
  C7, as the code has it. Removing twice under one catalog leaves the store that
  removing once leaves. Under any two catalogs the two stores hold the same line
  items up to their product snapshots. On a readable store both calls succeed,
  whether a line item has the identifier or not.
\<close>

theorem removeFromCart_idempotent:
  "snd (removeFromCart fetch itemId (snd (removeFromCart fetch itemId st)))
     = snd (removeFromCart fetch itemId st) \<and>
   map forget_car
       (persisted (snd (removeFromCart fetch2 itemId (snd (removeFromCart fetch1 itemId st)))))
     = map forget_car (persisted (snd (removeFromCart fetch1 itemId st))) \<and>
   (load st = Inr xs \<longrightarrow>
      fst (removeFromCart fetch1 itemId st) = Inr () \<and>
      fst (removeFromCart fetch2 itemId (snd (removeFromCart fetch1 itemId st))) = Inr ())"
proof (cases "load st")
  case (Inl e)
  then show ?thesis
    using load_fail_keeps [OF Inl] by simp
next
  case (Inr ys)
  have a: "snd (removeFromCart fetch itemId (snd (removeFromCart fetch itemId st)))
     = snd (removeFromCart fetch itemId st)"
    using removeFromCart_twice [OF Inr, of fetch itemId fetch]
          snd_removeFromCart [OF Inr, of fetch itemId]
    by (simp add: comp_def)
  have b: "map forget_car
        (persisted (snd (removeFromCart fetch2 itemId (snd (removeFromCart fetch1 itemId st)))))
     = map forget_car (persisted (snd (removeFromCart fetch1 itemId st)))"
    using removeFromCart_twice [OF Inr, of fetch2 itemId fetch1]
          snd_removeFromCart [OF Inr, of fetch1 itemId]
    by (simp add: comp_def)
  have c: "fst (removeFromCart f itemId s) = Inr ()" if "load s = Inr zs" for f s zs
    using that by (simp add: removeFromCart_def getCartItems_def Let_def)
  have d: "load (snd (removeFromCart fetch1 itemId st)) =
             Inr (map (enrich fetch1) (filter (\<lambda>item. CartItem_id item \<noteq> itemId) ys))"
    using snd_removeFromCart [OF Inr, of fetch1 itemId] by simp
  show ?thesis
    using a b c [OF Inr] c [OF d] by simp
qed

theorem removeFromCart_idempotent_witness:
  "load (Some (ItemsText [item_A])) = Inr [item_A] \<and>
   snd (removeFromCart catalog_up ''1700000000000''
          (snd (removeFromCart catalog_up ''1700000000000'' (Some (ItemsText [item_A])))))
     = snd (removeFromCart catalog_up ''1700000000000'' (Some (ItemsText [item_A]))) \<and>
   fst (removeFromCart catalog_up ''absent'' (Some (ItemsText [item_A]))) = Inr () \<and>
   fst (removeFromCart catalog_down ''absent''
          (snd (removeFromCart catalog_up ''absent'' (Some (ItemsText [item_A]))))) = Inr ()"
  using removeFromCart_idempotent
          [of catalog_up "''1700000000000''" "Some (ItemsText [item_A])"
              catalog_down catalog_up "[item_A]"]
        removeFromCart_idempotent
          [of catalog_up "''absent''" "Some (ItemsText [item_A])"
              catalog_down catalog_up "[item_A]"]
  by simp

text \<open>
  C7 as stated fails: the store holds product \<open>A\<close>, added a moment ago; a first
  removal (of an identifier that no line item has) runs while the catalog is down,
  a second one while it is up, and the second leaves a persisted sequence that the
  first did not leave.
\<close>

theorem removeFromCart_twice_counterexample:
  "snd (removeFromCart catalog_up ''absent'' (snd (removeFromCart catalog_down ''absent''
          (run [AddItem clock_1 catalog_up ''A'' no_options] None))))
     \<noteq> snd (removeFromCart catalog_down ''absent''
          (run [AddItem clock_1 catalog_up ''A'' no_options] None))"
  by (simp add: no_options_def addToCart_def removeFromCart_def getCartItems_def load_def
        JSON_stringify_def spread_def generated_def enrich_def catalog_up_def
        catalog_down_def clock_1_def Let_def)

text \<open>
  C10, as the code has it. On a readable store, \<open>removeFromCart\<close> persists the
  enriched line items that remain, and \<open>updateCartItem\<close>, when it finds the item,
  persists the enriched sequence with the patch merged into that item. An enriched
  line item carries the snapshot resolved in the call when its fetch succeeds and the
  \<open>car\<close> field it had in the store when its fetch fails; the patched item carries the
  \<open>car\<close> of the patch when the patch has one.
\<close>

theorem update_remove_persist_enriched:
  assumes "load st = Inr xs"
  shows "persisted (snd (removeFromCart fetch itemId st))
           = map (enrich fetch) (filter (\<lambda>item. CartItem_id item \<noteq> itemId) xs) \<and>
         (findIndex (\<lambda>item. CartItem_id item = itemId) xs \<noteq> -1 \<longrightarrow>
            persisted (snd (updateCartItem fetch itemId updates st))
              = (map (enrich fetch) xs)
                  [nat (findIndex (\<lambda>item. CartItem_id item = itemId) xs) :=
                     spread (enrich fetch
                               (xs ! nat (findIndex (\<lambda>item. CartItem_id item = itemId) xs)))
                       updates]) \<and>
         (\<forall>item. car (enrich fetch item) =
                   (case fetch (carId item) of Some data \<Rightarrow> Some data | None \<Rightarrow> car item)) \<and>
         (\<forall>item. car (spread item updates) =
                   (case p_car updates of Some v \<Rightarrow> Some v | None \<Rightarrow> car item))"
  using snd_removeFromCart [OF assms, of fetch itemId]
        snd_updateCartItem [OF assms, of fetch itemId updates]
  by (simp add: Let_def car_enrich spread_def)

theorem update_remove_persist_enriched_witness:
  "load (Some (ItemsText [item_A])) = Inr [item_A] \<and>
   findIndex (\<lambda>item. CartItem_id item = ''1700000000000'') [item_A] \<noteq> -1 \<and>
   persisted (snd (removeFromCart catalog_up ''absent'' (Some (ItemsText [item_A]))))
     = [item_A\<lparr>car := Some car_A\<rparr>] \<and>
   persisted (snd (updateCartItem catalog_up ''1700000000000''
                (no_options\<lparr>p_quantity := Some 2\<rparr>) (Some (ItemsText [item_A]))))
     = [item_A\<lparr>car := Some car_A, quantity := 2\<rparr>]"
  using update_remove_persist_enriched
          [of "Some (ItemsText [item_A])" "[item_A]" catalog_up "''absent''"
              "no_options\<lparr>p_quantity := Some 2\<rparr>"]
        update_remove_persist_enriched
          [of "Some (ItemsText [item_A])" "[item_A]" catalog_up "''1700000000000''"
              "no_options\<lparr>p_quantity := Some 2\<rparr>"]
  by (simp add: item_A_def no_options_def enrich_def catalog_up_def spread_def)

text \<open>
  C10 as stated fails, in two ways. Product \<open>A\<close> is added and its snapshot is
  persisted by a removal that ran while the catalog was up. First, a later removal,
  and a later update, run while the catalog is down, resolve nothing, and still
  persist the line item with a snapshot in its \<open>car\<close> field. Second, an update whose
  patch has a \<open>car\<close> field runs while the catalog is up, and persists the line item
  with the \<open>car\<close> of the patch, not with the snapshot that the call resolved.
\<close>

theorem stale_snapshot_counterexample:
  "\<not> spec_carries_resolved catalog_down
       (persisted (snd (removeFromCart catalog_down ''none''
          (run [AddItem clock_1 catalog_up ''A'' no_options,
                RemoveItem catalog_up ''none''] None)))) \<and>
   \<not> spec_carries_resolved catalog_down
       (persisted (snd (updateCartItem catalog_down ''1700000000000''
          (no_options\<lparr>p_quantity := Some 2\<rparr>)
          (run [AddItem clock_1 catalog_up ''A'' no_options,
                RemoveItem catalog_up ''none''] None)))) \<and>
   map car (persisted (snd (updateCartItem catalog_up ''1700000000000''
          (no_options\<lparr>p_car := Some (car_A\<lparr>price := 450000\<rparr>)\<rparr>)
          (run [AddItem clock_1 catalog_up ''A'' no_options,
                RemoveItem catalog_up ''none''] None))))
     = [Some (car_A\<lparr>price := 450000\<rparr>)] \<and>
   catalog_up ''A'' = Some car_A \<and> car_A\<lparr>price := 450000\<rparr> \<noteq> car_A"
  by (simp add: no_options_def addToCart_def removeFromCart_def updateCartItem_def
        getCartItems_def load_def spec_carries_resolved_def
        JSON_stringify_def spread_def generated_def enrich_def catalog_up_def
        catalog_down_def car_A_def clock_1_def Let_def)

section \<open>One line item per product\<close>

lemma apply_op_distinct:
  assumes "keeps_carId op" and "distinct (map carId (persisted st))"
  shows "distinct (map carId (persisted (apply_op op st)))"
proof (cases "load st")
  case (Inl e)
  then show ?thesis
    using assms(2) load_fail_keeps [OF Inl] by (cases op) (simp_all add: clearCart_def)
next
  case (Inr xs)
  then have p: "persisted st = xs" by (rule load_persisted)
  show ?thesis
  proof (cases op)
    case (AddItem clk fetch cid options)
    show ?thesis
    proof (cases "cid \<in> set (map carId xs)")
      case True
      then show ?thesis
        using AddItem assms(2) snd_addToCart_present [OF Inr True] by simp
    next
      case False
      have "carId (spread (generated clk cid) options) = cid"
        using assms(1) AddItem by (simp add: spread_def generated_def split: option.splits)
      then show ?thesis
        using AddItem assms(2) p False snd_addToCart_fresh [OF Inr False, of clk fetch options]
        by (simp add: comp_def)
    qed
  next
    case (UpdateItem fetch itemId updates)
    let ?i = "findIndex (\<lambda>item. CartItem_id item = itemId) xs"
    show ?thesis
    proof (cases "?i = -1")
      case True
      then show ?thesis
        using UpdateItem assms(2) snd_updateCartItem [OF Inr, of fetch itemId updates]
        by (simp add: Let_def)
    next
      case False
      from findIndex_range [OF False] have lt: "nat ?i < length xs" by simp
      have k: "p_carId updates = None" using assms(1) UpdateItem by simp
      have "map carId
              ((map (enrich fetch) xs)[nat ?i := spread (enrich fetch (xs ! nat ?i)) updates])
              = (map carId xs)[nat ?i := carId (xs ! nat ?i)]"
        by (simp add: map_update carId_spread_keep [OF k] comp_def)
      also have "\<dots> = map carId xs"
        using lt by (simp add: list_update_same_conv)
      finally show ?thesis
        using UpdateItem assms(2) p False snd_updateCartItem [OF Inr, of fetch itemId updates]
        by (simp add: Let_def)
    qed
  next
    case (RemoveItem fetch itemId)
    have "distinct (map carId (filter (\<lambda>item. CartItem_id item \<noteq> itemId) xs))"
      using assms(2) p by (simp add: distinct_map_filter)
    then show ?thesis
      using RemoveItem snd_removeFromCart [OF Inr, of fetch itemId] by (simp add: comp_def)
  next
    case Clear
    then show ?thesis by (simp add: clearCart_def)
  qed
qed

lemma run_distinct:
  "list_all keeps_carId ops \<Longrightarrow> distinct (map carId (persisted st)) \<Longrightarrow>
     distinct (map carId (persisted (run ops st)))"
  by (induction ops arbitrary: st) (simp_all add: apply_op_distinct)

text \<open>
  C1, as the code has it. From the empty store, every sequence of \<open>addToCart\<close>,
  \<open>updateCartItem\<close>, \<open>removeFromCart\<close> and \<open>clearCart\<close> calls in which no overrides
  name a product other than the one being added and no patch names a product leaves
  a persisted sequence with at most one line item per product identifier.
\<close>

theorem one_line_item_per_product:
  assumes "list_all keeps_carId ops"
  shows "distinct (map carId (persisted (run ops None)))"
  using run_distinct [OF assms, of None] by simp

theorem one_line_item_per_product_witness:
  "list_all keeps_carId
     [AddItem clock_1 catalog_up ''A'' no_options,
      UpdateItem catalog_up ''1700000000000'' (no_options\<lparr>p_quantity := Some 2\<rparr>),
      AddItem clock_2 catalog_down ''B'' no_options,
      AddItem clock_2 catalog_down ''A'' no_options,
      RemoveItem catalog_down ''1700000000000''] \<and>
   distinct (map carId (persisted (run
     [AddItem clock_1 catalog_up ''A'' no_options,
      UpdateItem catalog_up ''1700000000000'' (no_options\<lparr>p_quantity := Some 2\<rparr>),
      AddItem clock_2 catalog_down ''B'' no_options,
      AddItem clock_2 catalog_down ''A'' no_options,
      RemoveItem catalog_down ''1700000000000''] None)))"
  using one_line_item_per_product [of
     "[AddItem clock_1 catalog_up ''A'' no_options,
      UpdateItem catalog_up ''1700000000000'' (no_options\<lparr>p_quantity := Some 2\<rparr>),
      AddItem clock_2 catalog_down ''B'' no_options,
      AddItem clock_2 catalog_down ''A'' no_options,
      RemoveItem catalog_down ''1700000000000'']"]
  by (simp add: no_options_def)

text \<open>
  C1 as stated fails: after product \<open>A\<close> is added, adding product \<open>B\<close> with the
  overrides \<open>{carId: 'A'}\<close> passes the duplicate check, which looks for \<open>B\<close>, and
  persists a second line item whose \<open>carId\<close> is \<open>A\<close>.
\<close>

theorem two_line_items_counterexample:
  "\<not> distinct (map carId (persisted (run
     [AddItem clock_1 catalog_up ''A'' no_options,
      AddItem clock_2 catalog_up ''B'' (no_options\<lparr>p_carId := Some ''A''\<rparr>)] None)))"
  by (simp add: no_options_def addToCart_def getCartItems_def load_def
        JSON_stringify_def spread_def generated_def enrich_def catalog_up_def Let_def)

section \<open>The cart total\<close>

lemma foldl_plus_sum_list:
  "foldl (\<lambda>total item. total + g item) a xs = a + (\<Sum>item\<leftarrow>xs. g item)" for a :: real
  by (induction xs arbitrary: a) simp_all

lemma contribution_enrich:
  "price_or_0 (enrich fetch item) * quantity item =
     (case fetch (carId item) of
        Some data \<Rightarrow> price data * quantity item
      | None \<Rightarrow> (case car item of Some c \<Rightarrow> price c * quantity item | None \<Rightarrow> 0))"
  by (simp add: price_or_0_def enrich_def split: option.split)

text \<open>
  C6, as the code has it. On a readable store \<open>getCartTotal\<close> is the sum over the
  stored line items of: the resolved price times the quantity when the product
  resolves; when it does not, the price of the snapshot stored with the line item
  times the quantity, and 0 only when the line item was stored without a snapshot.
\<close>

theorem getCartTotal_sum:
  assumes "load st = Inr xs"
  shows "getCartTotal fetch st =
           Inr (\<Sum>item\<leftarrow>xs. case fetch (carId item) of
                               Some data \<Rightarrow> price data * quantity item
                             | None \<Rightarrow> (case car item of
                                          Some c \<Rightarrow> price c * quantity item
                                        | None \<Rightarrow> 0))"
  using assms
  by (simp add: getCartTotal_def getCartItems_def foldl_plus_sum_list comp_def
        contribution_enrich)

theorem getCartTotal_sum_witness:
  "load (Some (ItemsText [item_A\<lparr>quantity := 2\<rparr>, item_A\<lparr>carId := ''B''\<rparr>]))
     = Inr [item_A\<lparr>quantity := 2\<rparr>, item_A\<lparr>carId := ''B''\<rparr>] \<and>
   getCartTotal catalog_up
     (Some (ItemsText [item_A\<lparr>quantity := 2\<rparr>, item_A\<lparr>carId := ''B''\<rparr>]))
     = Inr 1000000"
  using getCartTotal_sum
    [of "Some (ItemsText [item_A\<lparr>quantity := 2\<rparr>, item_A\<lparr>carId := ''B''\<rparr>])"
        "[item_A\<lparr>quantity := 2\<rparr>, item_A\<lparr>carId := ''B''\<rparr>]" catalog_up]
  by (simp add: item_A_def catalog_up_def car_A_def)

text \<open>
  C6 as stated fails: product \<open>A\<close> is added and its snapshot is persisted by a
  removal that ran while the catalog was up; with the catalog down, no product
  resolves, the total in the specification's words is 0, and \<open>getCartTotal\<close> returns
  the price of the stored snapshot.
\<close>

theorem getCartTotal_stale_counterexample:
  "getCartTotal catalog_down
     (run [AddItem clock_1 catalog_up ''A'' no_options, RemoveItem catalog_up ''none''] None)
     = Inr 500000 \<and>
   spec_getTotal catalog_down (persisted
     (run [AddItem clock_1 catalog_up ''A'' no_options, RemoveItem catalog_up ''none''] None))
     = 0"
  by (simp add: no_options_def addToCart_def removeFromCart_def getCartItems_def load_def
        getCartTotal_def spec_getTotal_def price_or_0_def
        JSON_stringify_def spread_def generated_def enrich_def catalog_up_def
        catalog_down_def car_A_def clock_1_def Let_def)

section \<open>The monthly payment\<close>




section \<open>Promo codes\<close>

lemma map_of_validCodes_None:
  "promoCode \<notin> set (map fst validCodes) \<Longrightarrow> map_of validCodes promoCode = None"
  by (simp add: map_of_eq_None_iff)

text \<open>
  C8. From the initial discount 0, applying \<open>SAVE10\<close> sets the discount 0.1, which
  on a selected subtotal of 1,000,000 is a discount amount of 100,000 and a final
  total of 900,000. Applying a code that is not in the table changes no discount:
  from 0 it stays 0, the discount amount is 0 and the final total is the selected
  subtotal, whatever the subtotal is.
\<close>

theorem promo_code_application:
  "fst (handleApplyPromoCode ''SAVE10'' 0) = 0.1 \<and>
   (calculateSelectedTotal cartItems selectedItems = 1000000 \<longrightarrow>
      discountAmount (calculateSelectedTotal cartItems selectedItems)
          (fst (handleApplyPromoCode ''SAVE10'' 0)) = 100000 \<and>
      finalTotal (calculateSelectedTotal cartItems selectedItems)
          (fst (handleApplyPromoCode ''SAVE10'' 0)) = 900000) \<and>
   (promoCode \<notin> set (map fst validCodes) \<longrightarrow>
      handleApplyPromoCode promoCode promoDiscount = (promoDiscount, PromoInvalid) \<and>
      fst (handleApplyPromoCode promoCode 0) = 0 \<and>
      discountAmount selectedTotal (fst (handleApplyPromoCode promoCode 0)) = 0 \<and>
      finalTotal selectedTotal (fst (handleApplyPromoCode promoCode 0)) = selectedTotal)"
proof -
  have a: "handleApplyPromoCode ''SAVE10'' 0 = (0.1, PromoApplied)"
    by (simp add: handleApplyPromoCode_def validCodes_def)
  have b: "handleApplyPromoCode promoCode x = (x, PromoInvalid)"
    if "promoCode \<notin> set (map fst validCodes)" for x
    using map_of_validCodes_None [OF that] by (simp add: handleApplyPromoCode_def)
  show ?thesis
    using a b by (simp add: discountAmount_def finalTotal_def)
qed

text \<open>
  A cart of two cars of 500,000 each, both selected, and the code \<open>SALE50\<close>, which
  the table does not hold.
\<close>

theorem promo_code_application_witness:
  "calculateSelectedTotal [item_A\<lparr>car := Some car_A, quantity := 2\<rparr>] {''1700000000000''}
     = 1000000 \<and>
   discountAmount
       (calculateSelectedTotal [item_A\<lparr>car := Some car_A, quantity := 2\<rparr>] {''1700000000000''})
       (fst (handleApplyPromoCode ''SAVE10'' 0)) = 100000 \<and>
   finalTotal
       (calculateSelectedTotal [item_A\<lparr>car := Some car_A, quantity := 2\<rparr>] {''1700000000000''})
       (fst (handleApplyPromoCode ''SAVE10'' 0)) = 900000 \<and>
   ''SALE50'' \<notin> set (map fst validCodes) \<and>
   handleApplyPromoCode ''SALE50'' 0 = (0, PromoInvalid) \<and>
   discountAmount 1000000 (fst (handleApplyPromoCode ''SALE50'' 0)) = 0 \<and>
   finalTotal 1000000 (fst (handleApplyPromoCode ''SALE50'' 0)) = 1000000"
proof -
  have t: "calculateSelectedTotal [item_A\<lparr>car := Some car_A, quantity := 2\<rparr>]
             {''1700000000000''} = 1000000"
    by (simp add: calculateSelectedTotal_def price_or_0_def item_A_def car_A_def)
  have c: "''SALE50'' \<notin> set (map fst validCodes)"
    by (simp add: validCodes_def)
  show ?thesis
    using promo_code_application
            [of "[item_A\<lparr>car := Some car_A, quantity := 2\<rparr>]" "{''1700000000000''}"
                "''SALE50''" 0 1000000] t c
    by (simp add: discountAmount_def finalTotal_def)
qed

end
